theory Spec2Isabelle
  imports Complex_Main
begin

section \<open>Values exchanged between Python, the driver and the graph database\<close>

text \<open>
  A Python \<^verbatim>\<open>str\<close> is a sequence of Unicode code points, so it is modelled as a list of
  natural numbers. String literals of the source are written \<open>py ''...''\<close>.
\<close>

type_synonym py_str = "nat list"

definition py :: "string \<Rightarrow> py_str" where
  "py s = map of_char s"

text \<open>
  The values that \<^verbatim>\<open>record.data()\<close> hands to Python: null (\<^verbatim>\<open>None\<close>), booleans,
  integers, floats (as reals; not-a-number and the infinities are outside the model), strings,
  lists and maps. A Python \<^verbatim>\<open>dict\<close> keeps insertion order and is an association list.
\<close>

datatype val =
    VNull
  | VBool bool
  | VInt int
  | VFloat real
  | VStr py_str
  | VList "val list"
  | VMap "(py_str \<times> val) list"

type_synonym py_dict = "(py_str \<times> val) list"

datatype error =
    AuthError
  | ServiceUnavailable
  | CypherSyntaxError
  | OtherException
  | KeyError py_str
  | AttributeError
  | TypeError

section \<open>The property graph\<close>

record node =
  node_id :: py_str
  node_labels :: "py_str list"
  node_props :: py_dict

record rel =
  rel_id :: py_str
  rel_type :: py_str
  rel_start :: py_str
  rel_end :: py_str
  rel_props :: py_dict

text \<open>
  The database holds the nodes and the relationships; a relationship names its start and end
  node by element identifier. \<open>apoc_toJson\<close> is the server-side procedure
  \<^verbatim>\<open>apoc.convert.toJson\<close>, which is not part of the repository and is a parameter.
\<close>

record database =
  db_nodes :: "node list"
  db_rels :: "rel list"
  apoc_toJson :: "py_dict \<Rightarrow> py_str"

section \<open>The two Cypher queries\<close>

text \<open>\<^verbatim>\<open>n.key\<close>: the value of a property, null when the property is absent.\<close>

definition property :: "py_dict \<Rightarrow> py_str \<Rightarrow> val" where
  "property ps k = (case map_of ps k of None \<Rightarrow> VNull | Some v \<Rightarrow> v)"

text \<open>\<^verbatim>\<open>coalesce(...)\<close>: the first argument that is not null, null when all are.\<close>

fun coalesce :: "val list \<Rightarrow> val" where
  "coalesce [] = VNull"
| "coalesce (v # vs) = (if v = VNull then coalesce vs else v)"

text \<open>\<^verbatim>\<open>labels(n)[0]\<close>: indexing a list out of range gives null in Cypher.\<close>

definition first_label :: "py_str list \<Rightarrow> val" where
  "first_label ls = (case ls of [] \<Rightarrow> VNull | l # _ \<Rightarrow> VStr l)"

text \<open>The \<^verbatim>\<open>RETURN\<close> clause of \<^verbatim>\<open>node_query\<close>, one row per matched node.\<close>

definition node_row :: "database \<Rightarrow> node \<Rightarrow> py_dict" where
  "node_row d n =
     [(py ''source_id'', VStr (node_id n)),
      (py ''entity_name'',
         coalesce [property (node_props n) (py ''name''),
                   property (node_props n) (py ''title''),
                   VStr (node_id n)]),
      (py ''entity_type'', first_label (node_labels n)),
      (py ''description'', VStr (apoc_toJson d (node_props n))),
      (py ''properties'', VMap (node_props n))]"

text \<open>\<^verbatim>\<open>MATCH (n) RETURN ...\<close>: every node of the store, in store order.\<close>

definition node_query :: "database \<Rightarrow> py_dict list" where
  "node_query d = map (node_row d) (db_nodes d)"

text \<open>The \<^verbatim>\<open>RETURN\<close> clause of \<^verbatim>\<open>relationship_query\<close>.\<close>

definition relationship_row :: "database \<Rightarrow> node \<Rightarrow> rel \<Rightarrow> node \<Rightarrow> py_dict" where
  "relationship_row d src r tgt =
     [(py ''src_id'',
         coalesce [property (node_props src) (py ''name''),
                   property (node_props src) (py ''title''),
                   VStr (node_id src)]),
      (py ''tgt_id'',
         coalesce [property (node_props tgt) (py ''name''),
                   property (node_props tgt) (py ''title''),
                   VStr (node_id tgt)]),
      (py ''description'', VStr (rel_type r)),
      (py ''keywords'', VStr (apoc_toJson d (rel_props r))),
      (py ''weight'', VFloat 1),
      (py ''source_id'', VStr (rel_id r))]"

text \<open>
  \<^verbatim>\<open>MATCH (src)-[r]->(tgt) RETURN ...\<close>: one row for every relationship \<open>r\<close> together with
  a node \<open>src\<close> at its start and a node \<open>tgt\<close> at its end.
\<close>

definition relationship_query :: "database \<Rightarrow> py_dict list" where
  "relationship_query d =
     concat (map (\<lambda>r.
       concat (map (\<lambda>src.
         map (\<lambda>tgt. relationship_row d src r tgt)
           (filter (\<lambda>n. node_id n = rel_end r) (db_nodes d)))
         (filter (\<lambda>n. node_id n = rel_start r) (db_nodes d))))
       (db_rels d))"

section \<open>The converter\<close>

text \<open>
  Everything outside the source file: the database, the failures the driver will raise
  (on driver creation, on \<^verbatim>\<open>verify_connectivity\<close>, and on each successive session run, in
  order; no entry means no failure), and Python's built-in \<^verbatim>\<open>str()\<close>. The converter's own
  state is \<open>self_driver\<close> (whether \<^verbatim>\<open>self._driver\<close> is set); \<open>close_calls\<close> counts the
  calls of the driver's \<^verbatim>\<open>close()\<close>. Calls of the logger are not modelled.
\<close>

record world =
  db :: database
  driver_fault :: "error option"
  verify_fault :: "error option"
  run_faults :: "error option list"
  builtin_str :: "val \<Rightarrow> py_str"
  self_driver :: bool
  close_calls :: nat

text \<open>\<^verbatim>\<open>__aenter__\<close>: both handlers log and re-raise.\<close>

definition aenter :: "world \<Rightarrow> (error + unit) \<times> world" where
  "aenter w =
     (case driver_fault w of
        Some e \<Rightarrow> (Inl e, w)
      | None \<Rightarrow>
          (let w1 = w\<lparr>self_driver := True\<rparr> in
           case verify_fault w1 of
             Some e \<Rightarrow> (Inl e, w1)
           | None \<Rightarrow> (Inr (), w1)))"

text \<open>\<^verbatim>\<open>__aexit__\<close>: returns \<^verbatim>\<open>None\<close>, so an exception of the body is not suppressed.\<close>

definition aexit :: "world \<Rightarrow> world" where
  "aexit w = (if self_driver w then w\<lparr>close_calls := close_calls w + 1\<rparr> else w)"

text \<open>
  \<^verbatim>\<open>_run_query\<close>, with the query given by its meaning on a database. Without a driver,
  \<^verbatim>\<open>self._driver.session\<close> raises \<^verbatim>\<open>AttributeError\<close>; both handlers log and re-raise.
\<close>

definition run_query :: "world \<Rightarrow> (database \<Rightarrow> py_dict list) \<Rightarrow> (error + py_dict list) \<times> world" where
  "run_query w q =
     (if \<not> self_driver w then (Inl AttributeError, w)
      else case run_faults w of
        [] \<Rightarrow> (Inr (q (db w)), w)
      | f # fs \<Rightarrow>
          (case f of
             Some e \<Rightarrow> (Inl e, w\<lparr>run_faults := fs\<rparr>)
           | None \<Rightarrow> (Inr (q (db w)), w\<lparr>run_faults := fs\<rparr>)))"

text \<open>Python's \<^verbatim>\<open>str.isspace\<close> on one code point, which \<^verbatim>\<open>str.split()\<close> uses.\<close>

definition isspace :: "nat \<Rightarrow> bool" where
  "isspace c \<longleftrightarrow>
     c \<in> set [9, 10, 11, 12, 13, 28, 29, 30, 31, 32, 133, 160, 5760,
              8192, 8193, 8194, 8195, 8196, 8197, 8198, 8199, 8200, 8201, 8202,
              8232, 8233, 8239, 8287, 12288]"

text \<open>
  \<^verbatim>\<open>str.split()\<close> without arguments: \<open>cur\<close> is the word read so far; a whitespace
  character ends it, and empty words are not produced.
\<close>

fun split_from :: "py_str \<Rightarrow> py_str \<Rightarrow> py_str list" where
  "split_from cur [] = (if cur = [] then [] else [cur])"
| "split_from cur (c # cs) =
     (if isspace c then (if cur = [] then split_from [] cs else cur # split_from [] cs)
      else split_from (cur @ [c]) cs)"

definition py_split :: "py_str \<Rightarrow> py_str list" where
  "py_split s = split_from [] s"

text \<open>\<^verbatim>\<open>node[key]\<close>\<close>

definition getitem :: "py_dict \<Rightarrow> py_str \<Rightarrow> error + val" where
  "getitem d k = (case map_of d k of None \<Rightarrow> Inl (KeyError k) | Some v \<Rightarrow> Inr v)"

text \<open>A value inside an f-string: a \<^verbatim>\<open>str\<close> is inserted as it is.\<close>

definition format_value :: "(val \<Rightarrow> py_str) \<Rightarrow> val \<Rightarrow> py_str" where
  "format_value str_of v = (case v of VStr s \<Rightarrow> s | _ \<Rightarrow> str_of v)"

text \<open>\<^verbatim>\<open>v.split()\<close>: only a \<^verbatim>\<open>str\<close> has the method.\<close>

definition split_method :: "val \<Rightarrow> error + py_str list" where
  "split_method v = (case v of VStr s \<Rightarrow> Inr (py_split s) | _ \<Rightarrow> Inl AttributeError)"

text \<open>The dictionary display inside the comprehension, evaluated entry by entry.\<close>

definition make_chunk :: "(val \<Rightarrow> py_str) \<Rightarrow> py_dict \<Rightarrow> error + py_dict" where
  "make_chunk str_of node =
     (case getitem node (py ''source_id'') of
        Inl e \<Rightarrow> Inl e
      | Inr sid \<Rightarrow>
          (case getitem node (py ''description'') of
             Inl e \<Rightarrow> Inl e
           | Inr descr \<Rightarrow>
               (case split_method descr of
                  Inl e \<Rightarrow> Inl e
                | Inr ws \<Rightarrow>
                    Inr [(py ''chunk_id'', VStr (py ''chunk_'' @ format_value str_of sid)),
                         (py ''content'', descr),
                         (py ''source_id'', sid),
                         (py ''tokens'', VInt (int (length ws))),
                         (py ''chunk_order_index'', VInt 0)])))"

text \<open>The comprehension \<^verbatim>\<open>[... for node in nodes_data]\<close>; the first error ends it.\<close>

fun make_chunks :: "(val \<Rightarrow> py_str) \<Rightarrow> py_dict list \<Rightarrow> error + py_dict list" where
  "make_chunks str_of [] = Inr []"
| "make_chunks str_of (node # nodes_data) =
     (case make_chunk str_of node of
        Inl e \<Rightarrow> Inl e
      | Inr c \<Rightarrow>
          (case make_chunks str_of nodes_data of
             Inl e \<Rightarrow> Inl e
           | Inr cs \<Rightarrow> Inr (c # cs)))"

definition convert_to_lightrag_format :: "world \<Rightarrow> (error + py_dict) \<times> world" where
  "convert_to_lightrag_format w =
     (case run_query w node_query of
        (Inl e, w1) \<Rightarrow> (Inl e, w1)
      | (Inr nodes_data, w1) \<Rightarrow>
          (case run_query w1 relationship_query of
             (Inl e, w2) \<Rightarrow> (Inl e, w2)
           | (Inr relationships_data, w2) \<Rightarrow>
               (case make_chunks (builtin_str w2) nodes_data of
                  Inl e \<Rightarrow> (Inl e, w2)
                | Inr chunks \<Rightarrow>
                    (Inr [(py ''entities'', VList (map VMap nodes_data)),
                          (py ''relations'', VList (map VMap relationships_data)),
                          (py ''chunks'', VList (map VMap chunks))], w2))))"

section \<open>The entry point\<close>

text \<open>What \<^verbatim>\<open>main\<close> prints: the two totals and, when present, the first record of each.\<close>

record summary =
  num_entities :: nat
  num_relations :: nat
  sample_entity :: "val option"
  sample_relation :: "val option"

text \<open>\<^verbatim>\<open>d.get(key, [])\<close>\<close>

definition dict_get :: "py_dict \<Rightarrow> py_str \<Rightarrow> val" where
  "dict_get d k = (case map_of d k of None \<Rightarrow> VList [] | Some v \<Rightarrow> v)"

definition py_len :: "val \<Rightarrow> error + nat" where
  "py_len v =
     (case v of
        VList xs \<Rightarrow> Inr (length xs)
      | VStr s \<Rightarrow> Inr (length s)
      | VMap m \<Rightarrow> Inr (length m)
      | _ \<Rightarrow> Inl TypeError)"

text \<open>\<^verbatim>\<open>d[key][0]\<close>, read only when the length is positive.\<close>

definition first_of :: "py_dict \<Rightarrow> py_str \<Rightarrow> val option" where
  "first_of d k = (case map_of d k of Some (VList (x # _)) \<Rightarrow> Some x | _ \<Rightarrow> None)"

definition report :: "py_dict \<Rightarrow> error + summary" where
  "report d =
     (case py_len (dict_get d (py ''entities'')) of
        Inl e \<Rightarrow> Inl e
      | Inr ne \<Rightarrow>
          (case py_len (dict_get d (py ''relations'')) of
             Inl e \<Rightarrow> Inl e
           | Inr nr \<Rightarrow>
               Inr \<lparr>num_entities = ne, num_relations = nr,
                    sample_entity = (if 0 < ne then first_of d (py ''entities'') else None),
                    sample_relation = (if 0 < nr then first_of d (py ''relations'') else None)\<rparr>))"

text \<open>The body of the \<^verbatim>\<open>async with\<close> block.\<close>

definition main_body :: "world \<Rightarrow> (error + summary) \<times> world" where
  "main_body w =
     (case convert_to_lightrag_format w of
        (Inl e, w1) \<Rightarrow> (Inl e, w1)
      | (Inr lightrag_formatted_data, w1) \<Rightarrow> (report lightrag_formatted_data, w1))"

text \<open>
  \<^verbatim>\<open>main\<close>: the converter is built (\<^verbatim>\<open>__init__\<close> sets \<^verbatim>\<open>_driver\<close> to \<^verbatim>\<open>None\<close>) and used as
  an asynchronous context manager. Python runs \<^verbatim>\<open>__aexit__\<close> when the block is left,
  normally or by an exception, and does not run it when \<^verbatim>\<open>__aenter__\<close> itself raised.
\<close>

definition main :: "world \<Rightarrow> (error + summary) \<times> world" where
  "main w0 =
     (let w = w0\<lparr>self_driver := False\<rparr> in
      case aenter w of
        (Inl e, w1) \<Rightarrow> (Inl e, w1)
      | (Inr u, w1) \<Rightarrow> (case main_body w1 of (r, w2) \<Rightarrow> (r, aexit w2)))"

section \<open>Reading the result\<close>

text \<open>The records stored under a key of a returned structure; none when nothing was returned.\<close>

definition records_of :: "error + py_dict \<Rightarrow> py_str \<Rightarrow> py_dict list" where
  "records_of res k =
     (case res of
        Inl e \<Rightarrow> []
      | Inr kg \<Rightarrow>
          (case map_of kg k of
             Some (VList xs) \<Rightarrow> concat (map (\<lambda>v. case v of VMap m \<Rightarrow> [m] | _ \<Rightarrow> []) xs)
           | _ \<Rightarrow> []))"

section \<open>The specification's wording, for comparison with the code\<close>

text \<open>
  The number of whitespace-delimited tokens of a string, as the specification words it: a token
  is a maximal run of characters that are not whitespace, so the tokens are counted by the
  positions where one begins (a character that is not whitespace, at the start of the string or
  right after a whitespace character).
\<close>

definition spec_token_starts :: "py_str \<Rightarrow> nat list" where
  "spec_token_starts s =
     filter (\<lambda>i. \<not> isspace (s ! i) \<and> (i = 0 \<or> isspace (s ! (i - 1)))) [0..<length s]"

definition spec_token_count :: "py_str \<Rightarrow> nat" where
  "spec_token_count s = length (spec_token_starts s)"

text \<open>
  The fallback chain read literally as "the first non-empty value": a value is empty when it is
  null or the empty string.
\<close>

definition spec_non_empty :: "val \<Rightarrow> bool" where
  "spec_non_empty v \<longleftrightarrow> v \<noteq> VNull \<and> v \<noteq> VStr []"

fun spec_first_non_empty :: "val list \<Rightarrow> val" where
  "spec_first_non_empty [] = VNull"
| "spec_first_non_empty (v # vs) = (if spec_non_empty v then v else spec_first_non_empty vs)"

text \<open>
  The fallback chain read as "the first value that is present": a property is present when the
  node has it and it is not null (the empty string is present).
\<close>

definition spec_present :: "val option \<Rightarrow> bool" where
  "spec_present x \<longleftrightarrow> x \<noteq> None \<and> x \<noteq> Some VNull"

section \<open>A small graph for concrete runs\<close>

text \<open>
  Four nodes and one relationship: Alice (a person with a name), a node without labels and
  without properties, a node whose name is the empty string and whose title is \<open>T\<close>, a movie with
  only a title; Alice is related to the bare node by a relationship that carries the numeric
  property \<open>weight = 5.0\<close>. \<open>example_toJson\<close> gives the JSON text of the property maps that
  occur in this graph.
\<close>

definition alice :: node where
  "alice = \<lparr>node_id = py ''4:a:0'', node_labels = [py ''Person''],
            node_props = [(py ''name'', VStr (py ''Alice'')), (py ''age'', VInt 30)]\<rparr>"

definition bare :: node where
  "bare = \<lparr>node_id = py ''4:a:1'', node_labels = [], node_props = []\<rparr>"

definition unnamed :: node where
  "unnamed = \<lparr>node_id = py ''4:a:2'', node_labels = [py ''Doc''],
              node_props = [(py ''name'', VStr []), (py ''title'', VStr (py ''T''))]\<rparr>"

definition movie :: node where
  "movie = \<lparr>node_id = py ''4:a:3'', node_labels = [py ''Movie'', py ''Work''],
            node_props = [(py ''title'', VStr (py ''Heat''))]\<rparr>"

definition phrase :: node where
  "phrase = \<lparr>node_id = py ''4:a:4'', node_labels = [py ''Note''],
             node_props = [(py ''text'', VStr (py ''a b  c''))]\<rparr>"

definition knows :: rel where
  "knows = \<lparr>rel_id = py ''5:a:0'', rel_type = py ''KNOWS'',
            rel_start = py ''4:a:0'', rel_end = py ''4:a:1'',
            rel_props = [(py ''weight'', VFloat 5)]\<rparr>"

definition example_toJson :: "py_dict \<Rightarrow> py_str" where
  \<open>example_toJson ps =
     (if ps = node_props alice then py ''{"name":"Alice","age":30}''
      else if ps = node_props unnamed then py ''{"name":"","title":"T"}''
      else if ps = node_props movie then py ''{"title":"Heat"}''
      else if ps = node_props phrase then py ''{"text":"a b  c"}''
      else if ps = rel_props knows then py ''{"weight":5.0}''
      else py ''{}'')\<close>

definition example_db :: database where
  "example_db = \<lparr>db_nodes = [alice, bare, unnamed, movie], db_rels = [knows],
                 apoc_toJson = example_toJson\<rparr>"

text \<open>A store with one node, whose only property is the text \<open>a b  c\<close>.\<close>

definition phrase_db :: database where
  "phrase_db = \<lparr>db_nodes = [phrase], db_rels = [], apoc_toJson = example_toJson\<rparr>"

definition empty_db :: database where
  "empty_db = \<lparr>db_nodes = [], db_rels = [], apoc_toJson = example_toJson\<rparr>"

text \<open>
  A world before \<^verbatim>\<open>main\<close> runs: no driver yet, no call of \<^verbatim>\<open>close()\<close> yet. \<open>example_str\<close>
  stands for \<^verbatim>\<open>str()\<close>; the runs below never apply it to anything but a \<^verbatim>\<open>str\<close>.
\<close>

definition example_str :: "val \<Rightarrow> py_str" where
  "example_str v = (case v of VStr s \<Rightarrow> s | VNull \<Rightarrow> py ''None'' | _ \<Rightarrow> py ''?'')"

definition fresh_world :: "database \<Rightarrow> error option \<Rightarrow> error option \<Rightarrow> error option list \<Rightarrow> world" where
  "fresh_world d df vf rf =
     \<lparr>db = d, driver_fault = df, verify_fault = vf, run_faults = rf,
      builtin_str = example_str, self_driver = False, close_calls = 0\<rparr>"

text \<open>The same world once \<^verbatim>\<open>__aenter__\<close> has succeeded.\<close>

definition entered_world :: "database \<Rightarrow> error option list \<Rightarrow> world" where
  "entered_world d rf = (fresh_world d None None rf)\<lparr>self_driver := True\<rparr>"

section \<open>Basic facts\<close>

lemma py_eq_iff [simp]: "py a = py b \<longleftrightarrow> a = b"
  unfolding py_def by (simp add: inj_map_eq_map inj_of_char)

lemma run_query_Inr:
  "run_query w q = (Inr rows, w') \<Longrightarrow>
     rows = q (db w) \<and> self_driver w \<and> db w' = db w \<and> self_driver w' \<and>
     builtin_str w' = builtin_str w \<and> close_calls w' = close_calls w"
  by (auto simp: run_query_def split: if_splits list.splits option.splits)

lemma run_query_frame:
  "run_query w q = (res, w') \<Longrightarrow>
     db w' = db w \<and> self_driver w' = self_driver w \<and> close_calls w' = close_calls w"
  by (auto simp: run_query_def split: if_splits list.splits option.splits)

lemma run_query_entered_empty:
  "run_query (entered_world d []) q = (Inr (q d), entered_world d [])"
  by (simp add: run_query_def entered_world_def fresh_world_def)

text \<open>On a row of the node query the chunk display cannot fail.\<close>

lemma make_chunk_node_row:
  "make_chunk f (node_row d n) =
     Inr [(py ''chunk_id'', VStr (py ''chunk_'' @ node_id n)),
          (py ''content'', VStr (apoc_toJson d (node_props n))),
          (py ''source_id'', VStr (node_id n)),
          (py ''tokens'', VInt (int (length (py_split (apoc_toJson d (node_props n)))))),
          (py ''chunk_order_index'', VInt 0)]"
  by (simp add: make_chunk_def node_row_def getitem_def split_method_def format_value_def)

lemma make_chunks_node_rows:
  "make_chunks f (map (node_row d) ns) =
     Inr (map (\<lambda>n.
       [(py ''chunk_id'', VStr (py ''chunk_'' @ node_id n)),
        (py ''content'', VStr (apoc_toJson d (node_props n))),
        (py ''source_id'', VStr (node_id n)),
        (py ''tokens'', VInt (int (length (py_split (apoc_toJson d (node_props n)))))),
        (py ''chunk_order_index'', VInt 0)]) ns)"
  by (induction ns) (simp_all add: make_chunk_node_row)

lemma convert_unfold:
  "run_query w node_query = (Inr ns, w1) \<Longrightarrow>
   run_query w1 relationship_query = (Inr rs, w2) \<Longrightarrow>
   convert_to_lightrag_format w =
     (Inr [(py ''entities'', VList (map VMap ns)),
           (py ''relations'', VList (map VMap rs)),
           (py ''chunks'', VList (map VMap (map (\<lambda>n.
             [(py ''chunk_id'', VStr (py ''chunk_'' @ node_id n)),
              (py ''content'', VStr (apoc_toJson (db w) (node_props n))),
              (py ''source_id'', VStr (node_id n)),
              (py ''tokens'', VInt (int (length (py_split (apoc_toJson (db w) (node_props n)))))),
              (py ''chunk_order_index'', VInt 0)]) (db_nodes (db w)))))], w2)"
  unfolding convert_to_lightrag_format_def
  by (auto dest!: run_query_Inr simp: node_query_def make_chunks_node_rows)

lemma convert_Inr:
  "fst (convert_to_lightrag_format w) = Inr kg \<Longrightarrow>
     \<exists>w1 w2. run_query w node_query = (Inr (node_query (db w)), w1) \<and>
             run_query w1 relationship_query = (Inr (relationship_query (db w)), w2)"
  unfolding convert_to_lightrag_format_def
  by (auto split: prod.splits sum.splits dest!: run_query_Inr)

lemma convert_result:
  assumes "fst (convert_to_lightrag_format w) = Inr kg"
  shows "kg = [(py ''entities'', VList (map VMap (node_query (db w)))),
               (py ''relations'', VList (map VMap (relationship_query (db w)))),
               (py ''chunks'', VList (map VMap (map (\<lambda>n.
                 [(py ''chunk_id'', VStr (py ''chunk_'' @ node_id n)),
                  (py ''content'', VStr (apoc_toJson (db w) (node_props n))),
                  (py ''source_id'', VStr (node_id n)),
                  (py ''tokens'', VInt (int (length (py_split (apoc_toJson (db w) (node_props n)))))),
                  (py ''chunk_order_index'', VInt 0)]) (db_nodes (db w)))))]"
proof -
  from convert_Inr [OF assms] obtain w1 w2 where
    q1: "run_query w node_query = (Inr (node_query (db w)), w1)" and
    q2: "run_query w1 relationship_query = (Inr (relationship_query (db w)), w2)"
    by blast
  from convert_unfold [OF q1 q2] assms show ?thesis by simp
qed

section \<open>Empty result sets\<close>

text \<open>
  Claim C5. When both queries succeed and return no rows, the conversion returns, without an
  error, the structure whose entities, relations and chunks are all the empty sequence.
\<close>

theorem empty_results_give_empty_sequences:
  assumes "run_query w node_query = (Inr [], w1)"
    and "run_query w1 relationship_query = (Inr [], w2)"
  shows "convert_to_lightrag_format w =
           (Inr [(py ''entities'', VList []), (py ''relations'', VList []),
                 (py ''chunks'', VList [])], w2)"
proof -
  from assms(1) have "node_query (db w) = []"
    by (auto dest: run_query_Inr)
  then have "db_nodes (db w) = []"
    by (simp add: node_query_def)
  with convert_unfold [OF assms] show ?thesis by simp
qed

theorem empty_results_give_empty_sequences_witness:
  "run_query (entered_world empty_db []) node_query = (Inr [], entered_world empty_db []) \<and>
   run_query (entered_world empty_db []) relationship_query = (Inr [], entered_world empty_db []) \<and>
   convert_to_lightrag_format (entered_world empty_db []) =
     (Inr [(py ''entities'', VList []), (py ''relations'', VList []), (py ''chunks'', VList [])],
      entered_world empty_db [])"
proof -
  have q1: "run_query (entered_world empty_db []) node_query = (Inr [], entered_world empty_db [])"
    by (simp add: run_query_entered_empty node_query_def empty_db_def)
  have q2: "run_query (entered_world empty_db []) relationship_query =
              (Inr [], entered_world empty_db [])"
    by (simp add: run_query_entered_empty relationship_query_def empty_db_def)
  from q1 q2 empty_results_give_empty_sequences [OF q1 q2] show ?thesis by simp
qed

text \<open>The conversion of the example graph, with a driver and no failure.\<close>

lemma convert_example:
  "fst (convert_to_lightrag_format (entered_world example_db [])) =
     Inr [(py ''entities'', VList (map VMap (node_query example_db))),
          (py ''relations'', VList (map VMap (relationship_query example_db))),
          (py ''chunks'', VList (map VMap (map (\<lambda>n.
             [(py ''chunk_id'', VStr (py ''chunk_'' @ node_id n)),
              (py ''content'', VStr (apoc_toJson example_db (node_props n))),
              (py ''source_id'', VStr (node_id n)),
              (py ''tokens'', VInt (int (length (py_split (apoc_toJson example_db (node_props n)))))),
              (py ''chunk_order_index'', VInt 0)]) (db_nodes example_db))))]"
  using convert_unfold [OF run_query_entered_empty run_query_entered_empty, of example_db]
  by (simp add: entered_world_def fresh_world_def)

section \<open>Chunks\<close>

text \<open>
  Claim C1. Whenever the conversion returns, its chunks correspond one to one, in order, to its
  entities (the rows of the node query): the chunk of a node has \<open>chunk_id\<close> equal to
  \<open>chunk_\<close> followed by the node's \<open>source_id\<close>, \<open>content\<close> equal to the node's
  \<open>description\<close>, the node's \<open>source_id\<close>, and \<open>chunk_order_index\<close> 0.
\<close>

theorem one_chunk_per_node:
  assumes "fst (convert_to_lightrag_format w) = Inr kg"
  shows "\<exists>es cs.
           map_of kg (py ''entities'') = Some (VList (map VMap es)) \<and>
           map_of kg (py ''chunks'') = Some (VList (map VMap cs)) \<and>
           length cs = length es \<and>
           (\<forall>i<length es. \<exists>sid descr.
              map_of (es ! i) (py ''source_id'') = Some (VStr sid) \<and>
              map_of (es ! i) (py ''description'') = Some (VStr descr) \<and>
              map_of (cs ! i) (py ''chunk_id'') = Some (VStr (py ''chunk_'' @ sid)) \<and>
              map_of (cs ! i) (py ''content'') = Some (VStr descr) \<and>
              map_of (cs ! i) (py ''source_id'') = Some (VStr sid) \<and>
              map_of (cs ! i) (py ''chunk_order_index'') = Some (VInt 0))"
proof -
  let ?chunk = "\<lambda>n. [(py ''chunk_id'', VStr (py ''chunk_'' @ node_id n)),
                  (py ''content'', VStr (apoc_toJson (db w) (node_props n))),
                  (py ''source_id'', VStr (node_id n)),
                  (py ''tokens'', VInt (int (length (py_split (apoc_toJson (db w) (node_props n)))))),
                  (py ''chunk_order_index'', VInt 0)]"
  let ?es = "node_query (db w)"
  let ?cs = "map ?chunk (db_nodes (db w))"
  have kg: "kg = [(py ''entities'', VList (map VMap ?es)),
                  (py ''relations'', VList (map VMap (relationship_query (db w)))),
                  (py ''chunks'', VList (map VMap ?cs))]"
    by (rule convert_result [OF assms])
  have e: "map_of kg (py ''entities'') = Some (VList (map VMap ?es))"
    by (simp add: kg)
  have c: "map_of kg (py ''chunks'') = Some (VList (map VMap ?cs))"
    by (simp add: kg)
  have l: "length ?cs = length ?es"
    by (simp add: node_query_def)
  have f: "\<forall>i<length ?es. \<exists>sid descr.
              map_of (?es ! i) (py ''source_id'') = Some (VStr sid) \<and>
              map_of (?es ! i) (py ''description'') = Some (VStr descr) \<and>
              map_of (?cs ! i) (py ''chunk_id'') = Some (VStr (py ''chunk_'' @ sid)) \<and>
              map_of (?cs ! i) (py ''content'') = Some (VStr descr) \<and>
              map_of (?cs ! i) (py ''source_id'') = Some (VStr sid) \<and>
              map_of (?cs ! i) (py ''chunk_order_index'') = Some (VInt 0)"
    by (simp add: node_query_def node_row_def)
  from e c l f show ?thesis by blast
qed

theorem one_chunk_per_node_witness:
  "\<exists>kg es cs.
     fst (convert_to_lightrag_format (entered_world example_db [])) = Inr kg \<and>
     map_of kg (py ''entities'') = Some (VList (map VMap es)) \<and>
     map_of kg (py ''chunks'') = Some (VList (map VMap cs)) \<and>
     length cs = length es \<and> length es = 4 \<and>
     (\<forall>i<length es. \<exists>sid descr.
        map_of (es ! i) (py ''source_id'') = Some (VStr sid) \<and>
        map_of (es ! i) (py ''description'') = Some (VStr descr) \<and>
        map_of (cs ! i) (py ''chunk_id'') = Some (VStr (py ''chunk_'' @ sid)) \<and>
        map_of (cs ! i) (py ''content'') = Some (VStr descr) \<and>
        map_of (cs ! i) (py ''source_id'') = Some (VStr sid) \<and>
        map_of (cs ! i) (py ''chunk_order_index'') = Some (VInt 0))"
proof -
  let ?kg = "[(py ''entities'', VList (map VMap (node_query example_db))),
          (py ''relations'', VList (map VMap (relationship_query example_db))),
          (py ''chunks'', VList (map VMap (map (\<lambda>n.
             [(py ''chunk_id'', VStr (py ''chunk_'' @ node_id n)),
              (py ''content'', VStr (apoc_toJson example_db (node_props n))),
              (py ''source_id'', VStr (node_id n)),
              (py ''tokens'', VInt (int (length (py_split (apoc_toJson example_db (node_props n)))))),
              (py ''chunk_order_index'', VInt 0)]) (db_nodes example_db))))]"
  have k: "fst (convert_to_lightrag_format (entered_world example_db [])) = Inr ?kg"
    by (rule convert_example)
  from one_chunk_per_node [OF k] obtain es cs where
    e: "map_of ?kg (py ''entities'') = Some (VList (map VMap es))" and
    r: "map_of ?kg (py ''chunks'') = Some (VList (map VMap cs)) \<and>
     length cs = length es \<and>
     (\<forall>i<length es. \<exists>sid descr.
        map_of (es ! i) (py ''source_id'') = Some (VStr sid) \<and>
        map_of (es ! i) (py ''description'') = Some (VStr descr) \<and>
        map_of (cs ! i) (py ''chunk_id'') = Some (VStr (py ''chunk_'' @ sid)) \<and>
        map_of (cs ! i) (py ''content'') = Some (VStr descr) \<and>
        map_of (cs ! i) (py ''source_id'') = Some (VStr sid) \<and>
        map_of (cs ! i) (py ''chunk_order_index'') = Some (VInt 0))"
    by blast
  from e have "map VMap es = map VMap (node_query example_db)"
    by simp
  then have "length es = length (node_query example_db)"
    by (metis length_map)
  then have "length es = 4"
    by (simp add: node_query_def example_db_def)
  with k e r show ?thesis by blast
qed

section \<open>Rows pass through\<close>

text \<open>
  Claim C10. The entities and the relations of the output are the rows that the two queries
  returned, unchanged and in order; in particular the entity of a node still carries the node's
  raw property map under \<open>properties\<close>.
\<close>

theorem query_rows_returned_unchanged:
  assumes "run_query w node_query = (Inr ns, w1)"
    and "run_query w1 relationship_query = (Inr rs, w2)"
  shows "(\<exists>cs. convert_to_lightrag_format w =
            (Inr [(py ''entities'', VList (map VMap ns)),
                  (py ''relations'', VList (map VMap rs)),
                  (py ''chunks'', VList cs)], w2)) \<and>
         length ns = length (db_nodes (db w)) \<and>
         (\<forall>i<length ns.
            map_of (ns ! i) (py ''properties'') = Some (VMap (node_props (db_nodes (db w) ! i))))"
proof -
  from assms(1) have ns: "ns = node_query (db w)"
    by (auto dest: run_query_Inr)
  have "\<exists>cs. convert_to_lightrag_format w =
            (Inr [(py ''entities'', VList (map VMap ns)),
                  (py ''relations'', VList (map VMap rs)),
                  (py ''chunks'', VList cs)], w2)"
    using convert_unfold [OF assms] by blast
  moreover have "length ns = length (db_nodes (db w))"
    by (simp add: ns node_query_def)
  moreover have "\<forall>i<length ns.
            map_of (ns ! i) (py ''properties'') = Some (VMap (node_props (db_nodes (db w) ! i)))"
    by (simp add: ns node_query_def node_row_def)
  ultimately show ?thesis by blast
qed

theorem query_rows_returned_unchanged_witness:
  "run_query (entered_world example_db []) node_query =
     (Inr (node_query example_db), entered_world example_db []) \<and>
   run_query (entered_world example_db []) relationship_query =
     (Inr (relationship_query example_db), entered_world example_db []) \<and>
   (\<exists>cs. convert_to_lightrag_format (entered_world example_db []) =
            (Inr [(py ''entities'', VList (map VMap (node_query example_db))),
                  (py ''relations'', VList (map VMap (relationship_query example_db))),
                  (py ''chunks'', VList cs)], entered_world example_db [])) \<and>
   length (node_query example_db) = 4 \<and>
   map_of (node_query example_db ! 0) (py ''properties'') =
     Some (VMap [(py ''name'', VStr (py ''Alice'')), (py ''age'', VInt 30)])"
proof -
  have q1: "run_query (entered_world example_db []) node_query =
     (Inr (node_query example_db), entered_world example_db [])"
    by (rule run_query_entered_empty)
  have q2: "run_query (entered_world example_db []) relationship_query =
     (Inr (relationship_query example_db), entered_world example_db [])"
    by (rule run_query_entered_empty)
  have d: "db (entered_world example_db []) = example_db"
    by (simp add: entered_world_def fresh_world_def)
  have n: "db_nodes example_db ! 0 = alice" "length (db_nodes example_db) = 4"
    by (simp_all add: example_db_def)
  from query_rows_returned_unchanged [OF q1 q2] q1 q2 show ?thesis
    by (simp add: d n alice_def)
qed

section \<open>Failure of a query\<close>

text \<open>
  Claim C4. With a driver in place, a failure of the node query, or of the relationship query
  after the node query succeeded, makes the conversion raise that error; a structure is returned
  only when both queries succeeded; and \<^verbatim>\<open>main\<close> ends with the same error.
\<close>

theorem query_failure_aborts_conversion:
  "(self_driver w \<and> run_faults w = Some e # fs \<longrightarrow>
      convert_to_lightrag_format w = (Inl e, w\<lparr>run_faults := fs\<rparr>)) \<and>
   (self_driver w \<and> run_faults w = None # Some e # fs \<longrightarrow>
      convert_to_lightrag_format w = (Inl e, w\<lparr>run_faults := fs\<rparr>)) \<and>
   (fst (convert_to_lightrag_format w) = Inr kg \<longrightarrow>
      (\<exists>ns rs w1 w2. run_query w node_query = (Inr ns, w1) \<and>
                     run_query w1 relationship_query = (Inr rs, w2))) \<and>
   (driver_fault w = None \<and> verify_fault w = None \<and> run_faults w = None # Some e # fs \<longrightarrow>
      fst (main w) = Inl e)"
proof (intro conjI impI)
  assume "self_driver w \<and> run_faults w = Some e # fs"
  then show "convert_to_lightrag_format w = (Inl e, w\<lparr>run_faults := fs\<rparr>)"
    by (simp add: convert_to_lightrag_format_def run_query_def)
next
  assume "self_driver w \<and> run_faults w = None # Some e # fs"
  then show "convert_to_lightrag_format w = (Inl e, w\<lparr>run_faults := fs\<rparr>)"
    by (simp add: convert_to_lightrag_format_def run_query_def)
next
  assume "fst (convert_to_lightrag_format w) = Inr kg"
  from convert_Inr [OF this]
  show "\<exists>ns rs w1 w2. run_query w node_query = (Inr ns, w1) \<and>
                     run_query w1 relationship_query = (Inr rs, w2)"
    by blast
next
  assume "driver_fault w = None \<and> verify_fault w = None \<and> run_faults w = None # Some e # fs"
  then show "fst (main w) = Inl e"
    by (simp add: main_def aenter_def main_body_def convert_to_lightrag_format_def run_query_def)
qed

theorem query_failure_aborts_conversion_witness:
  "fst (convert_to_lightrag_format (entered_world example_db [Some CypherSyntaxError])) =
     Inl CypherSyntaxError \<and>
   fst (convert_to_lightrag_format (entered_world example_db [None, Some OtherException])) =
     Inl OtherException \<and>
   fst (main (fresh_world example_db None None [None, Some OtherException])) = Inl OtherException \<and>
   (\<exists>kg ns rs w1 w2.
      fst (convert_to_lightrag_format (entered_world example_db [])) = Inr kg \<and>
      run_query (entered_world example_db []) node_query = (Inr ns, w1) \<and>
      run_query w1 relationship_query = (Inr rs, w2))"
proof -
  have a: "self_driver (entered_world example_db [Some CypherSyntaxError]) \<and>
           run_faults (entered_world example_db [Some CypherSyntaxError]) = Some CypherSyntaxError # []"
    by (simp add: entered_world_def fresh_world_def)
  have b: "self_driver (entered_world example_db [None, Some OtherException]) \<and>
           run_faults (entered_world example_db [None, Some OtherException]) =
             None # Some OtherException # []"
    by (simp add: entered_world_def fresh_world_def)
  have c: "driver_fault (fresh_world example_db None None [None, Some OtherException]) = None \<and>
           verify_fault (fresh_world example_db None None [None, Some OtherException]) = None \<and>
           run_faults (fresh_world example_db None None [None, Some OtherException]) =
             None # Some OtherException # []"
    by (simp add: fresh_world_def)
  from a query_failure_aborts_conversion
         [of "entered_world example_db [Some CypherSyntaxError]" CypherSyntaxError "[]"]
  have 1: "fst (convert_to_lightrag_format (entered_world example_db [Some CypherSyntaxError])) =
     Inl CypherSyntaxError"
    by simp
  from b query_failure_aborts_conversion
         [of "entered_world example_db [None, Some OtherException]" OtherException "[]"]
  have 2: "fst (convert_to_lightrag_format (entered_world example_db [None, Some OtherException])) =
     Inl OtherException"
    by simp
  from c query_failure_aborts_conversion
         [of "fresh_world example_db None None [None, Some OtherException]" OtherException "[]"]
  have 3: "fst (main (fresh_world example_db None None [None, Some OtherException])) = Inl OtherException"
    by simp
  from convert_example query_failure_aborts_conversion [of "entered_world example_db []"]
  have 4: "\<exists>kg ns rs w1 w2.
      fst (convert_to_lightrag_format (entered_world example_db [])) = Inr kg \<and>
      run_query (entered_world example_db []) node_query = (Inr ns, w1) \<and>
      run_query w1 relationship_query = (Inr rs, w2)"
    by blast
  from 1 2 3 4 show ?thesis by simp
qed

section \<open>Relationships\<close>

lemma relationship_query_row:
  "r \<in> set (relationship_query d) \<Longrightarrow>
     \<exists>src\<in>set (db_nodes d). \<exists>tgt\<in>set (db_nodes d). \<exists>rl\<in>set (db_rels d).
        r = relationship_row d src rl tgt"
  by (auto simp: relationship_query_def)

lemma relationship_query_example:
  "relationship_query example_db = [relationship_row example_db alice knows bare]"
  by (simp add: relationship_query_def example_db_def alice_def bare_def unnamed_def movie_def
      knows_def)

lemma maps_of_VMap:
  "concat (map (\<lambda>v. case v of VMap m \<Rightarrow> [m] | _ \<Rightarrow> []) (map VMap rows)) = rows"
  by (induction rows) simp_all

lemma records_of_Inr:
  "map_of kg k = Some (VList (map VMap rows)) \<Longrightarrow> records_of (Inr kg) k = rows"
  by (simp add: records_of_def maps_of_VMap del: map_map)

lemma records_of_example:
  "records_of (fst (convert_to_lightrag_format (entered_world example_db []))) (py ''entities'') =
     node_query example_db"
  "records_of (fst (convert_to_lightrag_format (entered_world example_db []))) (py ''relations'') =
     relationship_query example_db"
  by (simp_all add: convert_example records_of_Inr)

text \<open>
  Claim C3. In every returned structure, the \<open>src_id\<close> and the \<open>tgt_id\<close> of each relation
  are the \<open>entity_name\<close> of some entity of the same structure.
\<close>

theorem relation_endpoints_name_entities:
  assumes "fst (convert_to_lightrag_format w) = Inr kg"
  shows "\<exists>es rs.
           map_of kg (py ''entities'') = Some (VList (map VMap es)) \<and>
           map_of kg (py ''relations'') = Some (VList (map VMap rs)) \<and>
           (\<forall>r\<in>set rs. \<exists>s t.
              map_of r (py ''src_id'') = Some s \<and>
              map_of r (py ''tgt_id'') = Some t \<and>
              (\<exists>e\<in>set es. map_of e (py ''entity_name'') = Some s) \<and>
              (\<exists>e\<in>set es. map_of e (py ''entity_name'') = Some t))"
proof -
  let ?es = "node_query (db w)"
  let ?rs = "relationship_query (db w)"
  note kg = convert_result [OF assms]
  have e: "map_of kg (py ''entities'') = Some (VList (map VMap ?es))"
    by (subst kg) simp
  have r: "map_of kg (py ''relations'') = Some (VList (map VMap ?rs))"
    by (subst kg) simp
  have "\<exists>s t. map_of x (py ''src_id'') = Some s \<and>
              map_of x (py ''tgt_id'') = Some t \<and>
              (\<exists>e\<in>set ?es. map_of e (py ''entity_name'') = Some s) \<and>
              (\<exists>e\<in>set ?es. map_of e (py ''entity_name'') = Some t)"
    if "x \<in> set ?rs" for x
  proof -
    from relationship_query_row [OF that] obtain src tgt rl where
      src: "src \<in> set (db_nodes (db w))" and tgt: "tgt \<in> set (db_nodes (db w))" and
      x: "x = relationship_row (db w) src rl tgt"
      by blast
    have s: "node_row (db w) src \<in> set ?es" and t: "node_row (db w) tgt \<in> set ?es"
      using src tgt by (simp_all add: node_query_def)
    have "map_of x (py ''src_id'') = map_of (node_row (db w) src) (py ''entity_name'')"
      by (simp add: x relationship_row_def node_row_def)
    moreover have "map_of x (py ''tgt_id'') = map_of (node_row (db w) tgt) (py ''entity_name'')"
      by (simp add: x relationship_row_def node_row_def)
    moreover have "\<exists>v. map_of (node_row (db w) n) (py ''entity_name'') = Some v" for n
      by (simp add: node_row_def)
    ultimately show ?thesis
      using s t by metis
  qed
  with e r show ?thesis by blast
qed

theorem relation_endpoints_name_entities_witness:
  "\<exists>kg es rs.
     fst (convert_to_lightrag_format (entered_world example_db [])) = Inr kg \<and>
     map_of kg (py ''entities'') = Some (VList (map VMap es)) \<and>
     map_of kg (py ''relations'') = Some (VList (map VMap rs)) \<and>
     length rs = 1 \<and>
     (\<forall>r\<in>set rs. \<exists>s t.
        map_of r (py ''src_id'') = Some s \<and>
        map_of r (py ''tgt_id'') = Some t \<and>
        (\<exists>e\<in>set es. map_of e (py ''entity_name'') = Some s) \<and>
        (\<exists>e\<in>set es. map_of e (py ''entity_name'') = Some t))"
proof -
  obtain kg where k: "fst (convert_to_lightrag_format (entered_world example_db [])) = Inr kg"
    using convert_example by blast
  from relation_endpoints_name_entities [OF k] obtain es rs where
    e: "map_of kg (py ''entities'') = Some (VList (map VMap es))" and
    r: "map_of kg (py ''relations'') = Some (VList (map VMap rs))" and
    a: "\<forall>r\<in>set rs. \<exists>s t.
        map_of r (py ''src_id'') = Some s \<and>
        map_of r (py ''tgt_id'') = Some t \<and>
        (\<exists>e\<in>set es. map_of e (py ''entity_name'') = Some s) \<and>
        (\<exists>e\<in>set es. map_of e (py ''entity_name'') = Some t)"
    by blast
  from r have "records_of (Inr kg) (py ''relations'') = rs"
    by (rule records_of_Inr)
  with k records_of_example(2) have "rs = relationship_query example_db"
    by simp
  then have "length rs = 1"
    by (simp add: relationship_query_example)
  with k e r a show ?thesis by blast
qed

text \<open>
  Claim C2, as amended. In every returned structure the \<open>weight\<close> of each relation is the
  constant 1.0, whatever properties the relationship carries.
\<close>

theorem relation_weight_is_constant:
  assumes "fst (convert_to_lightrag_format w) = Inr kg"
  shows "\<exists>rs. map_of kg (py ''relations'') = Some (VList (map VMap rs)) \<and>
              (\<forall>r\<in>set rs. map_of r (py ''weight'') = Some (VFloat 1))"
proof -
  note kg = convert_result [OF assms]
  have r: "map_of kg (py ''relations'') = Some (VList (map VMap (relationship_query (db w))))"
    by (subst kg) simp
  have "map_of x (py ''weight'') = Some (VFloat 1)" if "x \<in> set (relationship_query (db w))" for x
    using relationship_query_row [OF that] by (auto simp: relationship_row_def)
  with r show ?thesis by blast
qed

theorem relation_weight_is_constant_witness:
  "\<exists>kg rs.
     fst (convert_to_lightrag_format (entered_world example_db [])) = Inr kg \<and>
     map_of kg (py ''relations'') = Some (VList (map VMap rs)) \<and>
     length rs = 1 \<and>
     (\<forall>r\<in>set rs. map_of r (py ''weight'') = Some (VFloat 1))"
proof -
  obtain kg where k: "fst (convert_to_lightrag_format (entered_world example_db [])) = Inr kg"
    using convert_example by blast
  from relation_weight_is_constant [OF k] obtain rs where
    r: "map_of kg (py ''relations'') = Some (VList (map VMap rs))" and
    a: "\<forall>r\<in>set rs. map_of r (py ''weight'') = Some (VFloat 1)"
    by blast
  from r have "records_of (Inr kg) (py ''relations'') = rs"
    by (rule records_of_Inr)
  with k records_of_example(2) have "rs = relationship_query example_db"
    by simp
  then have "length rs = 1"
    by (simp add: relationship_query_example)
  with k r a show ?thesis by blast
qed

text \<open>
  Claim C2 as stated fails on the example graph: the relationship carries the numeric property
  \<open>weight = 5.0\<close>, and the relation that is returned for it has weight 1.0.
\<close>

theorem explicit_weight_counterexample:
  "property (rel_props knows) (py ''weight'') = VFloat 5 \<and>
   records_of (fst (convert_to_lightrag_format (entered_world example_db []))) (py ''relations'') =
     [relationship_row example_db alice knows bare] \<and>
   map_of (relationship_row example_db alice knows bare) (py ''weight'') = Some (VFloat 1) \<and>
   map_of (relationship_row example_db alice knows bare) (py ''weight'') \<noteq>
     Some (property (rel_props knows) (py ''weight''))"
  by (simp add: records_of_example relationship_query_example relationship_row_def
      property_def knows_def)

section \<open>Field names\<close>

lemma node_query_example:
  "node_query example_db =
     [node_row example_db alice, node_row example_db bare,
      node_row example_db unnamed, node_row example_db movie]"
  by (simp add: node_query_def example_db_def)

text \<open>
  Claim C9, as amended. Every returned structure has exactly the keys \<open>entities\<close>, \<open>relations\<close>
  and \<open>chunks\<close>; each relation has exactly the six fields of the contract and each chunk exactly
  the five; each entity has the four fields of the contract and, in addition, \<open>properties\<close>.
\<close>

theorem output_field_names:
  assumes "fst (convert_to_lightrag_format w) = Inr kg"
  shows "\<exists>es rs cs.
           kg = [(py ''entities'', VList (map VMap es)),
                 (py ''relations'', VList (map VMap rs)),
                 (py ''chunks'', VList (map VMap cs))] \<and>
           (\<forall>e\<in>set es. map fst e =
              [py ''source_id'', py ''entity_name'', py ''entity_type'', py ''description'',
               py ''properties'']) \<and>
           (\<forall>r\<in>set rs. map fst r =
              [py ''src_id'', py ''tgt_id'', py ''description'', py ''keywords'', py ''weight'',
               py ''source_id'']) \<and>
           (\<forall>c\<in>set cs. map fst c =
              [py ''chunk_id'', py ''content'', py ''source_id'', py ''tokens'',
               py ''chunk_order_index''])"
proof -
  let ?chunk = "\<lambda>n. [(py ''chunk_id'', VStr (py ''chunk_'' @ node_id n)),
                  (py ''content'', VStr (apoc_toJson (db w) (node_props n))),
                  (py ''source_id'', VStr (node_id n)),
                  (py ''tokens'', VInt (int (length (py_split (apoc_toJson (db w) (node_props n)))))),
                  (py ''chunk_order_index'', VInt 0)]"
  have kg: "kg = [(py ''entities'', VList (map VMap (node_query (db w)))),
                  (py ''relations'', VList (map VMap (relationship_query (db w)))),
                  (py ''chunks'', VList (map VMap (map ?chunk (db_nodes (db w)))))]"
    by (rule convert_result [OF assms])
  have e: "\<forall>e\<in>set (node_query (db w)). map fst e =
              [py ''source_id'', py ''entity_name'', py ''entity_type'', py ''description'',
               py ''properties'']"
    by (auto simp: node_query_def node_row_def)
  have r: "\<forall>r\<in>set (relationship_query (db w)). map fst r =
              [py ''src_id'', py ''tgt_id'', py ''description'', py ''keywords'', py ''weight'',
               py ''source_id'']"
    by (auto dest!: relationship_query_row simp: relationship_row_def)
  have c: "\<forall>c\<in>set (map ?chunk (db_nodes (db w))). map fst c =
              [py ''chunk_id'', py ''content'', py ''source_id'', py ''tokens'',
               py ''chunk_order_index'']"
    by auto
  from kg e r c show ?thesis by blast
qed

theorem output_field_names_witness:
  "\<exists>kg es rs cs.
     fst (convert_to_lightrag_format (entered_world example_db [])) = Inr kg \<and>
     kg = [(py ''entities'', VList (map VMap es)),
           (py ''relations'', VList (map VMap rs)),
           (py ''chunks'', VList (map VMap cs))] \<and>
     length es = 4 \<and> length rs = 1 \<and>
     (\<forall>e\<in>set es. map fst e =
        [py ''source_id'', py ''entity_name'', py ''entity_type'', py ''description'',
         py ''properties'']) \<and>
     (\<forall>r\<in>set rs. map fst r =
        [py ''src_id'', py ''tgt_id'', py ''description'', py ''keywords'', py ''weight'',
         py ''source_id'']) \<and>
     (\<forall>c\<in>set cs. map fst c =
        [py ''chunk_id'', py ''content'', py ''source_id'', py ''tokens'',
         py ''chunk_order_index''])"
proof -
  let ?kg = "[(py ''entities'', VList (map VMap (node_query example_db))),
          (py ''relations'', VList (map VMap (relationship_query example_db))),
          (py ''chunks'', VList (map VMap (map (\<lambda>n.
             [(py ''chunk_id'', VStr (py ''chunk_'' @ node_id n)),
              (py ''content'', VStr (apoc_toJson example_db (node_props n))),
              (py ''source_id'', VStr (node_id n)),
              (py ''tokens'', VInt (int (length (py_split (apoc_toJson example_db (node_props n)))))),
              (py ''chunk_order_index'', VInt 0)]) (db_nodes example_db))))]"
  have k: "fst (convert_to_lightrag_format (entered_world example_db [])) = Inr ?kg"
    by (rule convert_example)
  from output_field_names [OF k] obtain es rs cs where
    kg: "?kg = [(py ''entities'', VList (map VMap es)),
           (py ''relations'', VList (map VMap rs)),
           (py ''chunks'', VList (map VMap cs))]" and
    e: "\<forall>e\<in>set es. map fst e =
        [py ''source_id'', py ''entity_name'', py ''entity_type'', py ''description'',
         py ''properties'']" and
    r: "\<forall>r\<in>set rs. map fst r =
        [py ''src_id'', py ''tgt_id'', py ''description'', py ''keywords'', py ''weight'',
         py ''source_id'']" and
    c: "\<forall>c\<in>set cs. map fst c =
        [py ''chunk_id'', py ''content'', py ''source_id'', py ''tokens'',
         py ''chunk_order_index'']"
    by (elim exE conjE) (rule that)
  from kg have "map VMap (node_query example_db) = map VMap es"
    and "map VMap (relationship_query example_db) = map VMap rs"
    by simp_all
  then have "length (node_query example_db) = length es"
    and "length (relationship_query example_db) = length rs"
    by (metis length_map)+
  then have l: "length es = 4" "length rs = 1"
    by (simp_all add: node_query_example relationship_query_example)
  show ?thesis
    apply (rule exI [of _ ?kg])
    apply (rule exI [of _ es])
    apply (rule exI [of _ rs])
    apply (rule exI [of _ cs])
    apply (intro conjI)
          apply (rule k)
         apply (rule kg)
        apply (rule l(1))
       apply (rule l(2))
      apply (rule e)
     apply (rule r)
    apply (rule c)
    done
qed

text \<open>
  Claim C9 as stated fails on the example graph: the first entity has five fields, not the four
  of the contract, since it also has \<open>properties\<close>.
\<close>

theorem entity_fields_counterexample:
  "map fst (records_of (fst (convert_to_lightrag_format (entered_world example_db [])))
              (py ''entities'') ! 0) =
     [py ''source_id'', py ''entity_name'', py ''entity_type'', py ''description'',
      py ''properties''] \<and>
   py ''properties'' \<notin>
     {py ''entity_name'', py ''entity_type'', py ''description'', py ''source_id''} \<and>
   set (map fst (records_of (fst (convert_to_lightrag_format (entered_world example_db [])))
              (py ''entities'') ! 0)) \<noteq>
     {py ''entity_name'', py ''entity_type'', py ''description'', py ''source_id''}"
proof -
  have m: "map fst (records_of (fst (convert_to_lightrag_format (entered_world example_db [])))
              (py ''entities'') ! 0) =
     [py ''source_id'', py ''entity_name'', py ''entity_type'', py ''description'',
      py ''properties'']"
    by (simp add: records_of_example node_query_example node_row_def)
  have n: "py ''properties'' \<notin>
     {py ''entity_name'', py ''entity_type'', py ''description'', py ''source_id''}"
    by simp
  have "py ''properties'' \<in> set [py ''source_id'', py ''entity_name'', py ''entity_type'',
      py ''description'', py ''properties'']"
    by simp
  with n have "set [py ''source_id'', py ''entity_name'', py ''entity_type'',
      py ''description'', py ''properties''] \<noteq>
     {py ''entity_name'', py ''entity_type'', py ''description'', py ''source_id''}"
    by metis
  with m n show ?thesis by simp
qed


section \<open>Entity names\<close>

text \<open>
  Claim C6, as amended. In every returned structure there is one entity per node, in order, and
  its \<open>entity_name\<close> is the first value that is present (not absent, not null) among the node's
  \<open>name\<close> property, its \<open>title\<close> property and its element identifier; in particular a node
  that has neither \<open>name\<close> nor \<open>title\<close> is named by its element identifier.
\<close>

theorem entity_name_first_present:
  assumes "fst (convert_to_lightrag_format w) = Inr kg"
  shows "\<exists>es.
           map_of kg (py ''entities'') = Some (VList (map VMap es)) \<and>
           length es = length (db_nodes (db w)) \<and>
           (\<forall>i<length es.
              map_of (es ! i) (py ''entity_name'') =
                (let n = db_nodes (db w) ! i;
                     nm = map_of (node_props n) (py ''name'');
                     ti = map_of (node_props n) (py ''title'')
                 in if spec_present nm then nm
                    else if spec_present ti then ti
                    else Some (VStr (node_id n))) \<and>
              (map_of (node_props (db_nodes (db w) ! i)) (py ''name'') = None \<and>
               map_of (node_props (db_nodes (db w) ! i)) (py ''title'') = None \<longrightarrow>
               map_of (es ! i) (py ''entity_name'') = Some (VStr (node_id (db_nodes (db w) ! i)))))"
proof -
  note kg = convert_result [OF assms]
  have e: "map_of kg (py ''entities'') = Some (VList (map VMap (node_query (db w))))"
    by (subst kg) simp
  have l: "length (node_query (db w)) = length (db_nodes (db w))"
    by (simp add: node_query_def)
  have n: "map_of (node_row d n) (py ''entity_name'') =
             (let nm = map_of (node_props n) (py ''name'');
                  ti = map_of (node_props n) (py ''title'')
              in if spec_present nm then nm
                 else if spec_present ti then ti
                 else Some (VStr (node_id n)))" for d n
    by (auto simp: node_row_def property_def spec_present_def Let_def split: option.splits)
  have "\<forall>i<length (node_query (db w)).
              map_of (node_query (db w) ! i) (py ''entity_name'') =
                (let n = db_nodes (db w) ! i;
                     nm = map_of (node_props n) (py ''name'');
                     ti = map_of (node_props n) (py ''title'')
                 in if spec_present nm then nm
                    else if spec_present ti then ti
                    else Some (VStr (node_id n))) \<and>
              (map_of (node_props (db_nodes (db w) ! i)) (py ''name'') = None \<and>
               map_of (node_props (db_nodes (db w) ! i)) (py ''title'') = None \<longrightarrow>
               map_of (node_query (db w) ! i) (py ''entity_name'') =
                 Some (VStr (node_id (db_nodes (db w) ! i))))"
    by (simp add: node_query_def n Let_def spec_present_def)
  with e l show ?thesis by blast
qed


theorem entity_name_first_present_witness:
  "\<exists>kg es.
     fst (convert_to_lightrag_format (entered_world example_db [])) = Inr kg \<and>
     map_of kg (py ''entities'') = Some (VList (map VMap es)) \<and>
     length es = 4 \<and>
     map_of (es ! 0) (py ''entity_name'') = Some (VStr (py ''Alice'')) \<and>
     map_of (es ! 1) (py ''entity_name'') = Some (VStr (py ''4:a:1'')) \<and>
     map_of (es ! 3) (py ''entity_name'') = Some (VStr (py ''Heat''))"
proof -
  obtain kg where k: "fst (convert_to_lightrag_format (entered_world example_db [])) = Inr kg"
    using convert_example by blast
  have d: "db (entered_world example_db []) = example_db"
    by (simp add: entered_world_def fresh_world_def)
  have n: "db_nodes example_db = [alice, bare, unnamed, movie]"
    by (simp add: example_db_def)
  from entity_name_first_present [OF k] obtain es where
    e: "map_of kg (py ''entities'') = Some (VList (map VMap es))" and
    l: "length es = length (db_nodes (db (entered_world example_db [])))" and
    a: "\<forall>i<length es.
              map_of (es ! i) (py ''entity_name'') =
                (let n = db_nodes (db (entered_world example_db [])) ! i;
                     nm = map_of (node_props n) (py ''name'');
                     ti = map_of (node_props n) (py ''title'')
                 in if spec_present nm then nm
                    else if spec_present ti then ti
                    else Some (VStr (node_id n))) \<and>
              (map_of (node_props (db_nodes (db (entered_world example_db [])) ! i)) (py ''name'') = None \<and>
               map_of (node_props (db_nodes (db (entered_world example_db [])) ! i)) (py ''title'') = None \<longrightarrow>
               map_of (es ! i) (py ''entity_name'') =
                 Some (VStr (node_id (db_nodes (db (entered_world example_db [])) ! i))))"
    by (elim exE conjE) (rule that)
  from l have l4: "length es = 4"
    by (simp add: d n)
  from a l4 have "map_of (es ! 0) (py ''entity_name'') = Some (VStr (py ''Alice''))"
    by (simp add: d n alice_def spec_present_def)
  moreover from a l4 have "map_of (es ! 1) (py ''entity_name'') = Some (VStr (py ''4:a:1''))"
    by (simp add: d n bare_def spec_present_def)
  moreover from a l4 have "map_of (es ! 3) (py ''entity_name'') = Some (VStr (py ''Heat''))"
    by (simp add: d n movie_def spec_present_def)
  ultimately show ?thesis
    using k e l4 by blast
qed

text \<open>
  Claim C6 as stated fails on the example graph: the third node has the empty string as its
  name and \<open>T\<close> as its title; the first non-empty value of the chain is \<open>T\<close>, and the entity is
  named by the empty string.
\<close>

theorem empty_name_counterexample:
  "db_nodes example_db ! 2 = unnamed \<and>
   map_of (records_of (fst (convert_to_lightrag_format (entered_world example_db [])))
             (py ''entities'') ! 2) (py ''entity_name'') = Some (VStr []) \<and>
   spec_first_non_empty
     [property (node_props unnamed) (py ''name''),
      property (node_props unnamed) (py ''title''),
      VStr (node_id unnamed)] = VStr (py ''T'') \<and>
   map_of (records_of (fst (convert_to_lightrag_format (entered_world example_db [])))
             (py ''entities'') ! 2) (py ''entity_name'') \<noteq>
     Some (spec_first_non_empty
       [property (node_props unnamed) (py ''name''),
        property (node_props unnamed) (py ''title''),
        VStr (node_id unnamed)])"
proof -
  have a: "db_nodes example_db ! 2 = unnamed"
    by (simp add: example_db_def)
  have b: "map_of (records_of (fst (convert_to_lightrag_format (entered_world example_db [])))
             (py ''entities'') ! 2) (py ''entity_name'') = Some (VStr [])"
    by (simp add: records_of_example node_query_example node_row_def property_def unnamed_def)
  have c: "spec_first_non_empty
     [property (node_props unnamed) (py ''name''),
      property (node_props unnamed) (py ''title''),
      VStr (node_id unnamed)] = VStr (py ''T'')"
    by (simp add: property_def unnamed_def spec_non_empty_def py_def)
  have "VStr [] \<noteq> VStr (py ''T'')"
    by (simp add: py_def)
  with a b c show ?thesis by simp
qed

section \<open>Closing the driver\<close>

lemma convert_frame:
  "convert_to_lightrag_format w = (res, w') \<Longrightarrow>
     self_driver w' = self_driver w \<and> close_calls w' = close_calls w"
  unfolding convert_to_lightrag_format_def
  by (auto split: prod.splits sum.splits dest!: run_query_frame)

lemma main_body_frame:
  "main_body w = (res, w') \<Longrightarrow>
     self_driver w' = self_driver w \<and> close_calls w' = close_calls w"
  unfolding main_body_def
  by (auto split: prod.splits sum.splits dest!: convert_frame)

text \<open>
  Claim C7, as amended. Once \<^verbatim>\<open>__aenter__\<close> has succeeded, \<^verbatim>\<open>close()\<close> is called exactly once
  by \<^verbatim>\<open>main\<close>, whether the block returns or a query fails; when the creation of the driver
  fails there is no driver and \<^verbatim>\<open>close()\<close> is not called.
\<close>

theorem close_once_after_acquisition:
  "(driver_fault w = None \<and> verify_fault w = None \<longrightarrow>
      close_calls (snd (main w)) = close_calls w + 1) \<and>
   (driver_fault w = Some e \<longrightarrow>
      fst (main w) = Inl e \<and> \<not> self_driver (snd (main w)) \<and>
      close_calls (snd (main w)) = close_calls w)"
proof (rule conjI; rule impI)
  assume a: "driver_fault w = None \<and> verify_fault w = None"
  let ?w1 = "w\<lparr>self_driver := True\<rparr>"
  obtain r w2 where b: "main_body ?w1 = (r, w2)"
    by (cases "main_body ?w1")
  from main_body_frame [OF b] have "self_driver w2" "close_calls w2 = close_calls w"
    by simp_all
  with a b show "close_calls (snd (main w)) = close_calls w + 1"
    by (simp add: main_def aenter_def aexit_def)
next
  assume "driver_fault w = Some e"
  then show "fst (main w) = Inl e \<and> \<not> self_driver (snd (main w)) \<and>
      close_calls (snd (main w)) = close_calls w"
    by (simp add: main_def aenter_def)
qed

lemma report_example:
  "\<exists>s. report
     [(py ''entities'', VList (map VMap (node_query example_db))),
      (py ''relations'', VList (map VMap (relationship_query example_db))),
      (py ''chunks'', VList cs)] = Inr s \<and> num_entities s = 4 \<and> num_relations s = 1"
  by (simp add: report_def dict_get_def py_len_def node_query_example
      relationship_query_example)

theorem close_once_after_acquisition_witness:
  "(\<exists>s. fst (main (fresh_world example_db None None [])) = Inr s \<and>
        num_entities s = 4 \<and> num_relations s = 1) \<and>
   close_calls (snd (main (fresh_world example_db None None []))) = 1 \<and>
   fst (main (fresh_world example_db None None [Some OtherException])) = Inl OtherException \<and>
   close_calls (snd (main (fresh_world example_db None None [Some OtherException]))) = 1 \<and>
   fst (main (fresh_world example_db (Some OtherException) None [])) = Inl OtherException \<and>
   close_calls (snd (main (fresh_world example_db (Some OtherException) None []))) = 0"
proof -
  have e: "(fresh_world example_db None None [])\<lparr>self_driver := False\<rparr>\<lparr>self_driver := True\<rparr> =
             entered_world example_db []"
    by (simp add: entered_world_def fresh_world_def)
  obtain w' where c: "convert_to_lightrag_format (entered_world example_db []) =
     (Inr [(py ''entities'', VList (map VMap (node_query example_db))),
          (py ''relations'', VList (map VMap (relationship_query example_db))),
          (py ''chunks'', VList (map VMap (map (\<lambda>n.
             [(py ''chunk_id'', VStr (py ''chunk_'' @ node_id n)),
              (py ''content'', VStr (apoc_toJson example_db (node_props n))),
              (py ''source_id'', VStr (node_id n)),
              (py ''tokens'', VInt (int (length (py_split (apoc_toJson example_db (node_props n)))))),
              (py ''chunk_order_index'', VInt 0)]) (db_nodes example_db))))], w')"
    using convert_example by (cases "convert_to_lightrag_format (entered_world example_db [])") simp
  have h0: "driver_fault (fresh_world example_db None None []) = None"
    "verify_fault (entered_world example_db []) = None"
    by (simp_all add: fresh_world_def entered_world_def)
  have 1: "\<exists>s. fst (main (fresh_world example_db None None [])) = Inr s \<and>
        num_entities s = 4 \<and> num_relations s = 1"
    using report_example
    by (simp add: main_def aenter_def main_body_def h0 e c Let_def
        entered_world_def [symmetric])
  have 2: "fst (main (fresh_world example_db None None [Some OtherException])) = Inl OtherException"
    by (simp add: main_def aenter_def main_body_def convert_to_lightrag_format_def run_query_def
        fresh_world_def)
  have h: "driver_fault (fresh_world example_db None None rf) = None \<and>
           verify_fault (fresh_world example_db None None rf) = None" for rf
    by (simp add: fresh_world_def)
  have g: "driver_fault (fresh_world example_db (Some OtherException) None []) = Some OtherException"
    by (simp add: fresh_world_def)
  have z: "close_calls (fresh_world d df vf rf) = 0" for d df vf rf
    by (simp add: fresh_world_def)
  from h [of "[]"] close_once_after_acquisition [of "fresh_world example_db None None []"]
  have 3: "close_calls (snd (main (fresh_world example_db None None []))) = 1"
    by (simp add: z)
  from h [of "[Some OtherException]"]
    close_once_after_acquisition [of "fresh_world example_db None None [Some OtherException]"]
  have 4: "close_calls (snd (main (fresh_world example_db None None [Some OtherException]))) = 1"
    by (simp add: z)
  from g close_once_after_acquisition
    [of "fresh_world example_db (Some OtherException) None []" OtherException]
  have 5: "fst (main (fresh_world example_db (Some OtherException) None [])) = Inl OtherException \<and>
   close_calls (snd (main (fresh_world example_db (Some OtherException) None []))) = 0"
    by (simp add: z)
  from 1 2 3 4 5 show ?thesis by simp
qed

text \<open>
  Claim C7 as stated fails when \<^verbatim>\<open>__aenter__\<close> raises: after a failure of
  \<^verbatim>\<open>verify_connectivity\<close> the driver exists and \<^verbatim>\<open>close()\<close> is never called, and after a
  failure of the driver's creation \<^verbatim>\<open>close()\<close> is not called either.
\<close>

theorem close_not_called_counterexample:
  "fst (main (fresh_world example_db None (Some AuthError) [])) = Inl AuthError \<and>
   self_driver (snd (main (fresh_world example_db None (Some AuthError) []))) \<and>
   close_calls (snd (main (fresh_world example_db None (Some AuthError) []))) = 0 \<and>
   close_calls (snd (main (fresh_world example_db None (Some AuthError) []))) \<noteq> 1 \<and>
   fst (main (fresh_world example_db (Some OtherException) None [])) = Inl OtherException \<and>
   close_calls (snd (main (fresh_world example_db (Some OtherException) None []))) = 0 \<and>
   close_calls (snd (main (fresh_world example_db (Some OtherException) None []))) \<noteq> 1"
  by (simp add: main_def aenter_def fresh_world_def)

section \<open>Token counts\<close>

lemma split_from_snoc_length:
  "length (split_from cur (s @ [c])) =
     length (split_from cur s) +
     (if \<not> isspace c \<and> (if s = [] then cur = [] else isspace (last s)) then 1 else 0)"
  by (induction s arbitrary: cur) auto

lemma spec_token_starts_snoc:
  "spec_token_starts (s @ [c]) =
     spec_token_starts s @
     (if \<not> isspace c \<and> (s = [] \<or> isspace (last s)) then [length s] else [])"
proof -
  define P where "P = (\<lambda>t i. \<not> isspace (t ! i) \<and> (i = 0 \<or> isspace (t ! (i - 1))))"
  have starts: "spec_token_starts t = filter (P t) [0..<length t]" for t
    by (simp add: P_def spec_token_starts_def)
  have old: "filter (P (s @ [c])) [0..<length s] = filter (P s) [0..<length s]"
    by (rule filter_cong) (auto simp: P_def nth_append)
  have new: "P (s @ [c]) (length s) \<longleftrightarrow> \<not> isspace c \<and> (s = [] \<or> isspace (last s))"
    by (cases "s = []") (simp_all add: P_def nth_append last_conv_nth)
  show ?thesis
    by (simp add: starts old new)
qed

lemma py_split_count: "length (py_split s) = spec_token_count s"
proof (induction s rule: rev_induct)
  case Nil
  show ?case
    by (simp add: py_split_def spec_token_count_def spec_token_starts_def)
next
  case (snoc c s)
  then show ?case
    by (simp add: py_split_def spec_token_count_def split_from_snoc_length
        spec_token_starts_snoc)
qed

lemma py_split_abc: "py_split (py ''a b  c'') = [py ''a'', py ''b'', py ''c'']"
  by (simp add: py_split_def py_def isspace_def)

text \<open>
  Claim C8. In every returned structure there is one chunk per node, and the \<open>tokens\<close> of each
  chunk is the number of whitespace-delimited tokens of its \<open>content\<close>, a run of whitespace
  counting as one delimiter; for the content \<open>a b  c\<close> this number is 3.
\<close>

theorem chunk_tokens_count_words:
  assumes "fst (convert_to_lightrag_format w) = Inr kg"
  shows "(\<exists>cs. map_of kg (py ''chunks'') = Some (VList (map VMap cs)) \<and>
               length cs = length (db_nodes (db w)) \<and>
               (\<forall>c\<in>set cs. \<exists>s.
                  map_of c (py ''content'') = Some (VStr s) \<and>
                  map_of c (py ''tokens'') = Some (VInt (int (spec_token_count s))))) \<and>
         length (py_split (py ''a b  c'')) = 3 \<and>
         spec_token_count (py ''a b  c'') = 3"
proof -
  let ?chunk = "\<lambda>n. [(py ''chunk_id'', VStr (py ''chunk_'' @ node_id n)),
                  (py ''content'', VStr (apoc_toJson (db w) (node_props n))),
                  (py ''source_id'', VStr (node_id n)),
                  (py ''tokens'', VInt (int (length (py_split (apoc_toJson (db w) (node_props n)))))),
                  (py ''chunk_order_index'', VInt 0)]"
  let ?cs = "map ?chunk (db_nodes (db w))"
  note kg = convert_result [OF assms]
  have c: "map_of kg (py ''chunks'') = Some (VList (map VMap ?cs))"
    by (subst kg) simp
  have l: "length ?cs = length (db_nodes (db w))"
    by simp
  have t: "\<forall>c\<in>set ?cs. \<exists>s.
                  map_of c (py ''content'') = Some (VStr s) \<and>
                  map_of c (py ''tokens'') = Some (VInt (int (spec_token_count s)))"
    by (auto simp: py_split_count)
  have x: "length (py_split (py ''a b  c'')) = 3"
    by (simp add: py_split_abc)
  from c l t have "\<exists>cs. map_of kg (py ''chunks'') = Some (VList (map VMap cs)) \<and>
               length cs = length (db_nodes (db w)) \<and>
               (\<forall>c\<in>set cs. \<exists>s.
                  map_of c (py ''content'') = Some (VStr s) \<and>
                  map_of c (py ''tokens'') = Some (VInt (int (spec_token_count s))))"
    by blast
  with x show ?thesis
    by (simp add: py_split_count [symmetric])
qed

lemma phrase_json:
  \<open>apoc_toJson phrase_db (node_props phrase) = py ''{"text":"a b  c"}''\<close>
  by (simp add: phrase_db_def example_toJson_def phrase_def alice_def unnamed_def movie_def)

lemma phrase_json_split:
  \<open>py_split (py ''{"text":"a b  c"}'') = [py ''{"text":"a'', py ''b'', py ''c"}'']\<close>
  by (simp add: py_split_def py_def isspace_def)

theorem chunk_tokens_count_words_witness:
  \<open>\<exists>kg cs.
     fst (convert_to_lightrag_format (entered_world phrase_db [])) = Inr kg \<and>
     map_of kg (py ''chunks'') = Some (VList (map VMap cs)) \<and>
     length cs = 1 \<and>
     map_of (cs ! 0) (py ''content'') = Some (VStr (py ''{"text":"a b  c"}'')) \<and>
     map_of (cs ! 0) (py ''tokens'') = Some (VInt 3)\<close>
proof -
  let ?chunk = "\<lambda>n. [(py ''chunk_id'', VStr (py ''chunk_'' @ node_id n)),
                  (py ''content'', VStr (apoc_toJson phrase_db (node_props n))),
                  (py ''source_id'', VStr (node_id n)),
                  (py ''tokens'', VInt (int (length (py_split (apoc_toJson phrase_db (node_props n)))))),
                  (py ''chunk_order_index'', VInt 0)]"
  let ?kg = "[(py ''entities'', VList (map VMap (node_query phrase_db))),
              (py ''relations'', VList (map VMap (relationship_query phrase_db))),
              (py ''chunks'', VList (map VMap (map ?chunk (db_nodes phrase_db))))]"
  have d: "db (entered_world phrase_db []) = phrase_db"
    by (simp add: entered_world_def fresh_world_def)
  have k: "fst (convert_to_lightrag_format (entered_world phrase_db [])) = Inr ?kg"
    using convert_unfold [OF run_query_entered_empty run_query_entered_empty, of phrase_db]
    by (simp add: d)
  from chunk_tokens_count_words [OF k] obtain cs where
    c: "map_of ?kg (py ''chunks'') = Some (VList (map VMap cs))" and
    l: "length cs = length (db_nodes (db (entered_world phrase_db [])))" and
    t: "\<forall>c\<in>set cs. \<exists>s.
          map_of c (py ''content'') = Some (VStr s) \<and>
          map_of c (py ''tokens'') = Some (VInt (int (spec_token_count s)))"
    by (elim exE conjE) (rule that)
  have n1: "db_nodes phrase_db = [phrase]"
    by (simp add: phrase_db_def)
  have l1: "length cs = 1"
    using l by (simp add: d n1)
  from c have "records_of (Inr ?kg) (py ''chunks'') = cs"
    by (rule records_of_Inr)
  moreover have "records_of (Inr ?kg) (py ''chunks'') = map ?chunk (db_nodes phrase_db)"
    by (rule records_of_Inr) simp
  ultimately have "cs = map ?chunk (db_nodes phrase_db)"
    by simp
  then have cs: "cs ! 0 = ?chunk phrase"
    by (simp add: n1)
  have content: \<open>map_of (cs ! 0) (py ''content'') = Some (VStr (py ''{"text":"a b  c"}''))\<close>
    by (simp add: cs phrase_json)
  from l1 have "cs ! 0 \<in> set cs"
    by simp
  with t obtain s where
    s: "map_of (cs ! 0) (py ''content'') = Some (VStr s)" and
    n: "map_of (cs ! 0) (py ''tokens'') = Some (VInt (int (spec_token_count s)))"
    by blast
  from s content have \<open>s = py ''{"text":"a b  c"}''\<close>
    by simp
  with n have "map_of (cs ! 0) (py ''tokens'') = Some (VInt 3)"
    by (simp add: py_split_count [symmetric] phrase_json_split)
  with k c l1 content show ?thesis
    by blast
qed

end
